theory Spec2Isabelle
  imports Main
begin

section \<open>Python values, exceptions and the outside world\<close>

text \<open>
  The client is written in Python, so the values that flow through it are dynamically
  typed. \<open>pyval\<close> is the universe of the values the code can meet: what a JSON decoder
  produces, what the backend puts in a reply, what a caller passes as a model
  identifier. A dictionary is an association list in insertion order (a well-formed one
  has distinct keys). Floating-point numbers are left out of the universe.
\<close>

datatype pyval =
    PyNone
  | PyBool bool
  | PyInt int
  | PyStr string
  | PyList "pyval list"
  | PyDict "(string \<times> pyval) list"

text \<open>Truth value of an object, as \<open>if x:\<close> and \<open>not x\<close> test it.\<close>

fun truthy :: "pyval \<Rightarrow> bool" where
  "truthy PyNone = False"
| "truthy (PyBool b) = b"
| "truthy (PyInt i) = (i \<noteq> 0)"
| "truthy (PyStr t) = (t \<noteq> [])"
| "truthy (PyList xs) = (xs \<noteq> [])"
| "truthy (PyDict kvs) = (kvs \<noteq> [])"

fun falsy :: "pyval \<Rightarrow> bool" where
  "falsy v = (\<not> truthy v)"

text \<open>
  \<open>x == i\<close> for an integer \<open>i\<close> and \<open>x == t\<close> for a string \<open>t\<close>. A Python \<open>bool\<close> is
  an \<open>int\<close>: \<open>True == 1\<close> and \<open>False == 0\<close> hold.
\<close>

fun py_eq_int :: "pyval \<Rightarrow> int \<Rightarrow> bool" where
  "py_eq_int (PyInt j) i = (j = i)"
| "py_eq_int (PyBool b) i = ((if b then 1 else 0) = i)"
| "py_eq_int _ i = False"

fun py_eq_str :: "pyval \<Rightarrow> string \<Rightarrow> bool" where
  "py_eq_str (PyStr u) t = (u = t)"
| "py_eq_str _ t = False"

text \<open>
  The two \<open>ValueError\<close> messages of the client: \<open>"No model selected"\<close> and
  \<open>"Model <identifier> not found in config"\<close>.
\<close>

datatype errtext = No_model_selected | Model_not_found pyval

text \<open>
  Exceptions. \<open>AttributeError a\<close> is "object has no attribute \<open>a\<close>"; \<open>OtherError\<close> stands
  for every other subclass of \<open>Exception\<close> (an \<open>OSError\<close>, a \<open>UnicodeDecodeError\<close>, the
  errors of the HTTP client library). \<open>SystemExit\<close> is what \<open>exit(n)\<close> raises; it and
  \<open>KeyboardInterrupt\<close> derive from \<open>BaseException\<close> only, so \<open>except Exception\<close> lets
  them through.
\<close>

datatype exn =
    ValueError errtext
  | AttributeError string
  | TypeError
  | IndexError
  | JSONDecodeError
  | FileNotFoundError
  | StopIteration
  | OtherError string
  | SystemExit int
  | KeyboardInterrupt

fun is_Exception :: "exn \<Rightarrow> bool" where
  "is_Exception (SystemExit n) = False"
| "is_Exception KeyboardInterrupt = False"
| "is_Exception _ = True"

type_synonym 'a result = "exn + 'a"

text \<open>The dataclass \<open>ModelConfig\<close>. The field \<open>id\<close> is written \<open>id'\<close>.\<close>

record ModelConfig =
  name :: string
  id' :: int
  server :: string
  url :: pyval
  api_key :: pyval

text \<open>One entry of the conversation history: the dict \<open>{"role": r, "content": c}\<close>.\<close>

record chat_message =
  role :: string
  content :: pyval

text \<open>
  An \<open>OpenAI\<close> client object is determined by the two arguments it was built from. One
  model of the backend's listing carries its \<open>id\<close> and its \<open>owned_by\<close>.
\<close>

record OpenAI =
  client_api_key :: pyval
  client_base_url :: pyval

record api_model =
  model_id :: string
  owned_by :: string

text \<open>The keyword arguments of \<open>client.chat.completions.create\<close>.\<close>

record request =
  model :: string
  messages :: "chat_message list"
  stream :: bool
  response_format :: "pyval option"

text \<open>A request sent to a backend server.\<close>

datatype call = ModelsList OpenAI | ChatCompletionsCreate OpenAI request

text \<open>
  The lines the client prints: the configuration file is not valid JSON; the
  configuration file defines no server; \<open>API_KEY\<close> or \<open>BASE_URL\<close> is not set; an API
  request failed (with the exception's text); the model's reply cannot be parsed as JSON.
\<close>

datatype report =
    ConfigFormatError
  | NoServersDefined
  | EnvNotSet
  | ApiRequestFailed exn
  | ReplyNotJson

text \<open>
  Everything the client obtains from outside is a parameter:
  \<^item> \<open>read_text p\<close>: opening the file \<open>p\<close> for reading as UTF-8 and reading it whole;
  \<^item> \<open>json_decode t\<close>: the JSON decoder behind \<open>json.load\<close> and \<open>json.loads\<close>, \<open>None\<close>
    where it raises \<open>JSONDecodeError\<close>;
  \<^item> \<open>getenv\<close>: the process environment;
  \<^item> \<open>client_init k u\<close>: the exception, if any, that constructing \<open>OpenAI(api_key=k,
    base_url=u)\<close> raises;
  \<^item> \<open>models_list c\<close>: the models that iterating \<open>c.models.list()\<close> yields, and the
    exception that ends the iteration when it fails;
  \<^item> \<open>chat_create c r\<close>: the outcome of a request with \<open>stream=False\<close>, the \<open>content\<close>
    of each choice of the completion;
  \<^item> \<open>chat_stream c r\<close>: the outcome of a request with \<open>stream=True\<close>, the chunks in
    arrival order (for each chunk the \<open>delta.content\<close> of each of its choices) and the
    exception that ends the stream when it fails under way.
\<close>

record world =
  read_text :: "string \<Rightarrow> exn + string"
  json_decode :: "string \<Rightarrow> pyval option"
  getenv :: "string \<Rightarrow> string option"
  client_init :: "pyval \<Rightarrow> pyval \<Rightarrow> exn option"
  models_list :: "OpenAI \<Rightarrow> api_model list \<times> exn option"
  chat_create :: "OpenAI \<Rightarrow> request \<Rightarrow> exn + pyval list"
  chat_stream :: "OpenAI \<Rightarrow> request \<Rightarrow> exn + (pyval list list \<times> exn option)"

section \<open>The client object\<close>

text \<open>
  The four attributes that \<open>__init__\<close> sets, extended with what the process has printed
  and the requests it has sent so far. The methods keep their names, without the
  leading underscore of the private ones; \<open>__init__\<close> is \<open>init\<close>. Each takes the state
  and returns what the call returns or raises, with the state afterwards.
\<close>

record ChatClient =
  config :: "(int \<times> ModelConfig) list"
  conversation_history :: "chat_message list"
  selected_model :: "ModelConfig option"
  client :: "OpenAI option"

record state = ChatClient +
  stdout :: "report list"
  requests :: "call list"

text \<open>\<open>d[k] = v\<close>: an existing key keeps its place, a new key goes last.\<close>

fun dict_set :: "'k \<Rightarrow> 'v \<Rightarrow> ('k \<times> 'v) list \<Rightarrow> ('k \<times> 'v) list" where
  "dict_set k v [] = [(k, v)]"
| "dict_set k v ((k', v') # kvs) =
     (if k' = k then (k', v) # kvs else (k', v') # dict_set k v kvs)"

text \<open>\<open>obj.get(k, d)\<close>: only a dict has the method.\<close>

definition dict_get :: "pyval \<Rightarrow> string \<Rightarrow> pyval \<Rightarrow> exn + pyval" where
  "dict_get obj k d =
     (case obj of
        PyDict kvs \<Rightarrow> Inr (case map_of kvs k of None \<Rightarrow> d | Some v \<Rightarrow> v)
      | _ \<Rightarrow> Inl (AttributeError ''get''))"

definition OpenAI_new :: "world \<Rightarrow> pyval \<Rightarrow> pyval \<Rightarrow> exn + OpenAI" where
  "OpenAI_new w key base_url =
     (case client_init w key base_url of
        Some e \<Rightarrow> Inl e
      | None \<Rightarrow> Inr \<lparr>client_api_key = key, client_base_url = base_url\<rparr>)"

subsection \<open>Discovery\<close>

text \<open>The body of the \<open>for model in client.models.list()\<close> loop, over the models yielded.\<close>

fun load_models_loop ::
  "pyval \<Rightarrow> pyval \<Rightarrow> api_model list \<Rightarrow> (int \<times> ModelConfig) list \<Rightarrow> (int \<times> ModelConfig) list"
where
  "load_models_loop key base_url [] cfg = cfg"
| "load_models_loop key base_url (m # ms) cfg =
     (let model_config =
        \<lparr>name = model_id m, id' = int (length cfg) + 1, server = owned_by m,
         url = base_url, api_key = key\<rparr>
      in load_models_loop key base_url ms (dict_set (id' model_config) model_config cfg))"

definition load_models_from_api :: "world \<Rightarrow> pyval \<Rightarrow> pyval \<Rightarrow> state \<Rightarrow> pyval result \<times> state" where
  "load_models_from_api w key base_url s =
     (case OpenAI_new w key base_url of
        Inl e \<Rightarrow> (Inl e, s)
      | Inr c \<Rightarrow>
          (case models_list w c of
             (ms, fin) \<Rightarrow>
               ((case fin of None \<Rightarrow> Inr PyNone | Some e \<Rightarrow> Inl e),
                s\<lparr>config := load_models_loop key base_url ms (config s),
                  requests := requests s @ [ModelsList c]\<rparr>)))"

subsection \<open>Configuration\<close>

text \<open>The loop over \<open>server_configs.items()\<close>; it stops at the first exception.\<close>

fun load_servers :: "world \<Rightarrow> (string \<times> pyval) list \<Rightarrow> state \<Rightarrow> pyval result \<times> state" where
  "load_servers w [] s = (Inr PyNone, s)"
| "load_servers w ((server_name, server_data) # rest) s =
     (case dict_get server_data ''api_key'' (PyStr []) of
        Inl e \<Rightarrow> (Inl e, s)
      | Inr key \<Rightarrow>
          (case dict_get server_data ''api_url'' (PyStr []) of
             Inl e \<Rightarrow> (Inl e, s)
           | Inr base_url \<Rightarrow>
               (case load_models_from_api w key base_url s of
                  (Inl e, s') \<Rightarrow> (Inl e, s')
                | (Inr r, s') \<Rightarrow> load_servers w rest s')))"

text \<open>
  The \<open>try\<close> block of \<open>_load_config_from_file\<close>: open the file, decode its text.
\<close>

definition read_config :: "world \<Rightarrow> string \<Rightarrow> exn + pyval" where
  "read_config w config_path =
     (case read_text w config_path of
        Inl e \<Rightarrow> Inl e
      | Inr t \<Rightarrow> (case json_decode w t of None \<Rightarrow> Inl JSONDecodeError | Some j \<Rightarrow> Inr j))"

text \<open>
  The handler of \<open>FileNotFoundError\<close> formats its message from \<open>self.config_path\<close>, an
  attribute the class never sets: evaluating it raises \<open>AttributeError\<close> before anything
  is printed, and the \<open>exit(1)\<close> after it is not reached.
\<close>

definition load_config_from_file :: "world \<Rightarrow> string \<Rightarrow> state \<Rightarrow> pyval result \<times> state" where
  "load_config_from_file w config_path s =
     (case read_config w config_path of
        Inl e \<Rightarrow>
          if e = FileNotFoundError then (Inl (AttributeError ''config_path''), s)
          else if e = JSONDecodeError
            then (Inl (SystemExit 1), s\<lparr>stdout := stdout s @ [ConfigFormatError]\<rparr>)
          else (Inl e, s)
      | Inr cfg \<Rightarrow>
          (case dict_get cfg ''servers'' (PyDict []) of
             Inl e \<Rightarrow> (Inl e, s)
           | Inr server_configs \<Rightarrow>
               if falsy server_configs
               then (Inl (SystemExit 1), s\<lparr>stdout := stdout s @ [NoServersDefined]\<rparr>)
               else
                 (case server_configs of
                    PyDict items \<Rightarrow> load_servers w items s
                  | _ \<Rightarrow> (Inl (AttributeError ''items''), s))))"

text \<open>\<open>os.getenv(n)\<close>: \<open>None\<close> when the variable is not set.\<close>

definition os_getenv :: "world \<Rightarrow> string \<Rightarrow> pyval" where
  "os_getenv w n = (case getenv w n of None \<Rightarrow> PyNone | Some t \<Rightarrow> PyStr t)"

definition load_config_from_env :: "world \<Rightarrow> state \<Rightarrow> pyval result \<times> state" where
  "load_config_from_env w s =
     (let key = os_getenv w ''API_KEY''; base_url = os_getenv w ''BASE_URL'' in
      if falsy key \<or> falsy base_url
      then (Inl (SystemExit 1), s\<lparr>stdout := stdout s @ [EnvNotSet]\<rparr>)
      else
        (case OpenAI_new w key base_url of
           Inl e \<Rightarrow> (Inl e, s)
         | Inr c \<Rightarrow> load_models_from_api w key base_url (s\<lparr>client := Some c\<rparr>)))"

subsection \<open>Model selection\<close>

text \<open>\<open>model_identifier in (model.id, model.name)\<close>.\<close>

definition identifies :: "pyval \<Rightarrow> ModelConfig \<Rightarrow> bool" where
  "identifies model_identifier m =
     (py_eq_int model_identifier (id' m) \<or> py_eq_str model_identifier (name m))"

text \<open>
  The loop over \<open>self.config.values()\<close>. The model is bound before the client is built,
  so a constructor that raises leaves the new model selected with the old client.
\<close>

fun select_loop :: "world \<Rightarrow> pyval \<Rightarrow> ModelConfig list \<Rightarrow> state \<Rightarrow> pyval result \<times> state" where
  "select_loop w model_identifier [] s = (Inl (ValueError (Model_not_found model_identifier)), s)"
| "select_loop w model_identifier (m # ms) s =
     (if identifies model_identifier m then
        (case OpenAI_new w (api_key m) (url m) of
           Inl e \<Rightarrow> (Inl e, s\<lparr>selected_model := Some m\<rparr>)
         | Inr c \<Rightarrow> (Inr PyNone, s\<lparr>selected_model := Some m, client := Some c\<rparr>))
      else select_loop w model_identifier ms s)"

definition set_model_by_id :: "world \<Rightarrow> pyval \<Rightarrow> state \<Rightarrow> pyval result \<times> state" where
  "set_model_by_id w model_identifier s = select_loop w model_identifier (map snd (config s)) s"

definition get_selected_model :: "state \<Rightarrow> ModelConfig option" where
  "get_selected_model s = selected_model s"

subsection \<open>Construction\<close>

definition fresh :: state where
  "fresh = \<lparr>config = [], conversation_history = [], selected_model = None, client = None,
            stdout = [], requests = []\<rparr>"

text \<open>
  \<open>__init__\<close>, in a process that has printed and sent nothing yet. \<open>if config_path:\<close>
  sends both \<open>None\<close> and the empty string to the environment.
\<close>

definition init :: "world \<Rightarrow> string option \<Rightarrow> pyval result \<times> state" where
  "init w config_path =
     (case (case config_path of
              None \<Rightarrow> load_config_from_env w fresh
            | Some p \<Rightarrow> if p = [] then load_config_from_env w fresh
                        else load_config_from_file w p fresh) of
        (Inl e, s) \<Rightarrow> (Inl e, s)
      | (Inr r, s) \<Rightarrow> if config s = [] then (Inr PyNone, s) else set_model_by_id w (PyInt 1) s)"

section \<open>Conversation\<close>

text \<open>
  \<open>self.client.chat.completions.create(...)\<close>. With no client the attribute lookup on
  \<open>None\<close> raises and nothing is sent. The two functions differ in the flag \<open>stream\<close>
  of the request they are given, and so in what the library returns.
\<close>

definition create :: "world \<Rightarrow> request \<Rightarrow> state \<Rightarrow> (exn + pyval list) \<times> state" where
  "create w req s =
     (case client s of
        None \<Rightarrow> (Inl (AttributeError ''chat''), s)
      | Some c \<Rightarrow> (chat_create w c req, s\<lparr>requests := requests s @ [ChatCompletionsCreate c req]\<rparr>))"

definition create_stream ::
  "world \<Rightarrow> request \<Rightarrow> state \<Rightarrow> (exn + (pyval list list \<times> exn option)) \<times> state"
where
  "create_stream w req s =
     (case client s of
        None \<Rightarrow> (Inl (AttributeError ''chat''), s)
      | Some c \<Rightarrow> (chat_stream w c req, s\<lparr>requests := requests s @ [ChatCompletionsCreate c req]\<rparr>))"

text \<open>\<open>choices[0]\<close>, then the content of that choice.\<close>

definition first_choice :: "pyval list \<Rightarrow> exn + pyval" where
  "first_choice choices = (case choices of [] \<Rightarrow> Inl IndexError | c # cs \<Rightarrow> Inr c)"

text \<open>\<open>except Exception as e:\<close> print the failure and return \<open>None\<close>.\<close>

definition api_failed :: "exn \<Rightarrow> state \<Rightarrow> pyval result \<times> state" where
  "api_failed e s =
     (if is_Exception e then (Inr PyNone, s\<lparr>stdout := stdout s @ [ApiRequestFailed e]\<rparr>)
      else (Inl e, s))"

definition chat :: "world \<Rightarrow> string \<Rightarrow> state \<Rightarrow> pyval result \<times> state" where
  "chat w message s =
     (case selected_model s of
        None \<Rightarrow> (Inl (ValueError No_model_selected), s)
      | Some m \<Rightarrow>
          (let s1 = s\<lparr>conversation_history :=
                        conversation_history s @ [\<lparr>role = ''user'', content = PyStr message\<rparr>]\<rparr>
           in case create w \<lparr>model = name m, messages = conversation_history s1,
                              stream = False, response_format = None\<rparr> s1 of
                (Inl e, s2) \<Rightarrow> api_failed e s2
              | (Inr choices, s2) \<Rightarrow>
                  (case first_choice choices of
                     Inl e \<Rightarrow> api_failed e s2
                   | Inr reply_content \<Rightarrow>
                       (Inr reply_content,
                        s2\<lparr>conversation_history :=
                             conversation_history s2 @
                               [\<lparr>role = ''assistant'', content = reply_content\<rparr>]\<rparr>))))"

subsection \<open>Structured replies\<close>

text \<open>\<open>json.loads(v)\<close>: a value that is not text is a \<open>TypeError\<close>.\<close>

definition json_loads :: "world \<Rightarrow> pyval \<Rightarrow> exn + pyval" where
  "json_loads w v =
     (case v of
        PyStr t \<Rightarrow> (case json_decode w t of None \<Rightarrow> Inl JSONDecodeError | Some j \<Rightarrow> Inr j)
      | _ \<Rightarrow> Inl TypeError)"

text \<open>
  The two handlers of \<open>json_chat\<close>, in their order: \<open>except json.JSONDecodeError\<close>
  returns the empty dict, \<open>except Exception\<close> is the handler of \<open>chat\<close>.
\<close>

definition json_failed :: "exn \<Rightarrow> state \<Rightarrow> pyval result \<times> state" where
  "json_failed e s =
     (if e = JSONDecodeError then (Inr (PyDict []), s\<lparr>stdout := stdout s @ [ReplyNotJson]\<rparr>)
      else api_failed e s)"

definition json_chat :: "world \<Rightarrow> string \<Rightarrow> state \<Rightarrow> pyval result \<times> state" where
  "json_chat w message s =
     (case selected_model s of
        None \<Rightarrow> (Inl (ValueError No_model_selected), s)
      | Some m \<Rightarrow>
          (let s1 = s\<lparr>conversation_history :=
                        conversation_history s @ [\<lparr>role = ''user'', content = PyStr message\<rparr>]\<rparr>
           in case create w \<lparr>model = name m, messages = conversation_history s1,
                              stream = False,
                              response_format = Some (PyDict [(''type'', PyStr ''json_object'')])\<rparr> s1 of
                (Inl e, s2) \<Rightarrow> json_failed e s2
              | (Inr choices, s2) \<Rightarrow>
                  (case first_choice choices of
                     Inl e \<Rightarrow> json_failed e s2
                   | Inr reply_content \<Rightarrow>
                       (let s3 = s2\<lparr>conversation_history :=
                                     conversation_history s2 @
                                       [\<lparr>role = ''assistant'', content = reply_content\<rparr>]\<rparr>
                        in case json_loads w reply_content of
                             Inl e \<Rightarrow> json_failed e s3
                           | Inr j \<Rightarrow> (Inr j, s3)))))"

subsection \<open>Streaming\<close>

text \<open>
  \<open>stream_chat\<close> contains \<open>yield\<close>, so it is a generator function: a call binds the
  argument and returns a generator object without running any of the body. The body runs
  when an element is requested, from where it stopped to the next \<open>yield\<close>. A generator
  is \<open>Created\<close> (called, body not entered), \<open>Suspended\<close> at the \<open>yield\<close> (with the chunks
  of the response not read yet, and how the stream will end), or \<open>Finished\<close>.
\<close>

datatype generator =
    Created string
  | Suspended "pyval list list" "exn option"
  | Finished

definition stream_chat :: "string \<Rightarrow> state \<Rightarrow> generator \<times> state" where
  "stream_chat message s = (Created message, s)"

text \<open>
  The handler inside the generator: print the failure and return, which the consumer
  sees as the end of the sequence.
\<close>

definition stream_failed :: "exn \<Rightarrow> state \<Rightarrow> pyval result \<times> generator \<times> state" where
  "stream_failed e s =
     (if is_Exception e
      then (Inl StopIteration, Finished, s\<lparr>stdout := stdout s @ [ApiRequestFailed e]\<rparr>)
      else (Inl e, Finished, s))"

text \<open>The \<open>for response_chunk in response_stream\<close> loop, up to its next \<open>yield\<close>.\<close>

fun stream_loop :: "pyval list list \<Rightarrow> exn option \<Rightarrow> state \<Rightarrow> pyval result \<times> generator \<times> state" where
  "stream_loop [] None s = (Inl StopIteration, Finished, s)"
| "stream_loop [] (Some e) s = stream_failed e s"
| "stream_loop (response_chunk # rest) fin s =
     (case first_choice response_chunk of
        Inl e \<Rightarrow> stream_failed e s
      | Inr delta \<Rightarrow> (Inr delta, Suspended rest fin, s))"

text \<open>
  \<open>next(g)\<close>: the element yielded, or the exception raised (\<open>StopIteration\<close> at the end),
  with the generator and the state afterwards.
\<close>

definition generator_next :: "world \<Rightarrow> generator \<Rightarrow> state \<Rightarrow> pyval result \<times> generator \<times> state" where
  "generator_next w g s =
     (case g of
        Created message \<Rightarrow>
          (case selected_model s of
             None \<Rightarrow> (Inl (ValueError No_model_selected), Finished, s)
           | Some m \<Rightarrow>
               (let s1 = s\<lparr>conversation_history :=
                             conversation_history s @ [\<lparr>role = ''user'', content = PyStr message\<rparr>]\<rparr>
                in case create_stream w \<lparr>model = name m, messages = conversation_history s1,
                                          stream = True, response_format = None\<rparr> s1 of
                     (Inl e, s2) \<Rightarrow> stream_failed e s2
                   | (Inr (chunks, fin), s2) \<Rightarrow> stream_loop chunks fin s2))
      | Suspended rest fin \<Rightarrow> stream_loop rest fin s
      | Finished \<Rightarrow> (Inl StopIteration, Finished, s))"

text \<open>
  A consumer that requests elements until the generator raises, as \<open>for chunk in g\<close>
  does: the elements received, the exception that ended the iteration, and the generator
  and state afterwards. The fuel bounds the number of requests; \<open>None\<close> is "not done
  within the bound".
\<close>

fun consume ::
  "nat \<Rightarrow> world \<Rightarrow> generator \<Rightarrow> state \<Rightarrow> (pyval list \<times> exn \<times> generator \<times> state) option"
where
  "consume 0 w g s = None"
| "consume (Suc n) w g s =
     (case generator_next w g s of
        (Inl e, g', s') \<Rightarrow> Some ([], e, g', s')
      | (Inr v, g', s') \<Rightarrow>
          (case consume n w g' s' of
             None \<Rightarrow> None
           | Some (vs, e, g'', s'') \<Rightarrow> Some (v # vs, e, g'', s'')))"

subsection \<open>History management\<close>

definition chat_cleanup :: "state \<Rightarrow> state" where
  "chat_cleanup s = s\<lparr>conversation_history := []\<rparr>"

definition get_history :: "state \<Rightarrow> chat_message list" where
  "get_history s = conversation_history s"

definition append_history :: "string \<Rightarrow> pyval \<Rightarrow> state \<Rightarrow> state" where
  "append_history r c s =
     s\<lparr>conversation_history := conversation_history s @ [\<lparr>role = r, content = c\<rparr>]\<rparr>"

definition set_system_prompt :: "pyval \<Rightarrow> state \<Rightarrow> state" where
  "set_system_prompt c s =
     s\<lparr>conversation_history := conversation_history s @ [\<lparr>role = ''system'', content = c\<rparr>]\<rparr>"

section \<open>Resolution as a sequence of discovery calls\<close>

text \<open>
  A resolution queries servers one after the other: \<open>_load_models_from_api\<close> is called
  once per query \<open>(api_key, base_url)\<close>, each call when the one before has returned, and
  an exception ends the sequence. \<open>_load_config_from_env\<close> makes one such call and the
  loop of \<open>_load_config_from_file\<close> one per server of the document.
\<close>

fun discovery_calls :: "world \<Rightarrow> (pyval \<times> pyval) list \<Rightarrow> state \<Rightarrow> pyval result \<times> state" where
  "discovery_calls w [] s = (Inr PyNone, s)"
| "discovery_calls w ((key, base_url) # rest) s =
     (case load_models_from_api w key base_url s of
        (Inl e, s') \<Rightarrow> (Inl e, s')
      | (Inr r, s') \<Rightarrow> discovery_calls w rest s')"

text \<open>
  A query succeeds when the client is built and the listing ends without an exception.
  \<open>listing\<close> is what the queried server returns, in its order, each model paired with
  the key and URL of the query.
\<close>

fun succeeds :: "world \<Rightarrow> pyval \<times> pyval \<Rightarrow> bool" where
  "succeeds w (key, base_url) =
     (client_init w key base_url = None \<and>
      snd (models_list w \<lparr>client_api_key = key, client_base_url = base_url\<rparr>) = None)"

definition listing :: "world \<Rightarrow> pyval \<times> pyval \<Rightarrow> (api_model \<times> pyval \<times> pyval) list" where
  "listing w q =
     map (\<lambda>m. (m, fst q, snd q))
       (fst (models_list w \<lparr>client_api_key = fst q, client_base_url = snd q\<rparr>))"

text \<open>
  The table the specification describes: the models in the given order, numbered from
  \<open>i\<close> upwards without gaps, each descriptor holding its own number.
\<close>

fun numbered :: "int \<Rightarrow> (api_model \<times> pyval \<times> pyval) list \<Rightarrow> (int \<times> ModelConfig) list" where
  "numbered i [] = []"
| "numbered i ((m, key, base_url) # rest) =
     (i, \<lparr>name = model_id m, id' = i, server = owned_by m, url = base_url, api_key = key\<rparr>)
       # numbered (i + 1) rest"

text \<open>The keys of a table are the run \<open>1..N\<close>, in this order, \<open>N\<close> its size.\<close>

definition contiguous :: "(int \<times> ModelConfig) list \<Rightarrow> bool" where
  "contiguous cfg = (map fst cfg = [1..int (length cfg)])"

text \<open>
  The query that the loop of \<open>_load_config_from_file\<close> makes for a server entry that is
  a dict: each field, or the empty string where the entry lacks it.
\<close>

definition server_query :: "(string \<times> pyval) list \<Rightarrow> pyval \<times> pyval" where
  "server_query kvs =
     ((case map_of kvs ''api_key'' of None \<Rightarrow> PyStr [] | Some v \<Rightarrow> v),
      (case map_of kvs ''api_url'' of None \<Rightarrow> PyStr [] | Some v \<Rightarrow> v))"

section \<open>Fragments of a streaming response\<close>

text \<open>
  What a streaming response carries for the consumer: the \<open>delta.content\<close> of the first
  choice of each chunk, in arrival order, up to the first chunk that has no choice.
\<close>

fun fragments :: "pyval list list \<Rightarrow> pyval list" where
  "fragments [] = []"
| "fragments ([] # rest) = []"
| "fragments ((delta # others) # rest) = delta # fragments rest"

section \<open>An example world and session\<close>

text \<open>
  Two servers: \<open>http://a\<close> lists the models \<open>gpt-a\<close> and \<open>gpt-b\<close>, \<open>http://b\<close> lists
  \<open>m-c\<close>, any other address lists nothing. The file \<open>config.json\<close> names one server and
  gives it neither key nor URL. A chat request is answered with \<open>hello\<close>, in two
  fragments when streamed.
\<close>

definition demo_world :: world where
  "demo_world =
     \<lparr>read_text =
        (\<lambda>p. if p = ''config.json'' then Inr ''{\"servers\": {\"main\": {}}}''
             else Inl FileNotFoundError),
      json_decode =
        (\<lambda>t. if t = ''{\"servers\": {\"main\": {}}}''
               then Some (PyDict [(''servers'', PyDict [(''main'', PyDict [])])])
             else if t = ''{}'' then Some (PyDict [])
             else None),
      getenv =
        (\<lambda>n. if n = ''API_KEY'' then Some ''k''
             else if n = ''BASE_URL'' then Some ''http://a''
             else None),
      client_init = (\<lambda>key base_url. None),
      models_list =
        (\<lambda>c. if client_base_url c = PyStr ''http://a''
               then ([\<lparr>model_id = ''gpt-a'', owned_by = ''lab''\<rparr>,
                      \<lparr>model_id = ''gpt-b'', owned_by = ''lab''\<rparr>], None)
             else if client_base_url c = PyStr ''http://b''
               then ([\<lparr>model_id = ''m-c'', owned_by = ''org''\<rparr>], None)
             else ([], None)),
      chat_create = (\<lambda>c r. Inr [PyStr ''hello'']),
      chat_stream = (\<lambda>c r. Inr ([[PyStr ''he''], [PyStr ''llo'']], None))\<rparr>"

definition demo_model :: ModelConfig where
  "demo_model =
     \<lparr>name = ''gpt-a'', id' = 1, server = ''lab'', url = PyStr ''http://a'', api_key = PyStr ''k''\<rparr>"

definition demo_client :: OpenAI where
  "demo_client = \<lparr>client_api_key = PyStr ''k'', client_base_url = PyStr ''http://a''\<rparr>"

text \<open>A session with one model in its table, selected, and an empty history.\<close>

definition demo_state :: state where
  "demo_state =
     \<lparr>config = [(1, demo_model)], conversation_history = [],
      selected_model = Some demo_model, client = Some demo_client,
      stdout = [], requests = []\<rparr>"

text \<open>The same world with a backend that fails every chat request.\<close>

definition failing_world :: world where
  "failing_world = demo_world\<lparr>chat_create := \<lambda>c r. Inl (OtherError ''connection refused'')\<rparr>"

text \<open>The same world with a backend whose reply is not JSON.\<close>

definition prose_world :: world where
  "prose_world = demo_world\<lparr>chat_create := \<lambda>c r. Inr [PyStr ''Sure, here it is'']\<rparr>"

text \<open>The same world with servers that list no model.\<close>

definition empty_world :: world where
  "empty_world = demo_world\<lparr>models_list := \<lambda>c. ([], None)\<rparr>"

section \<open>Discovery: the identifier table\<close>

lemma dict_set_new: "k \<notin> fst ` set kvs \<Longrightarrow> dict_set k v kvs = kvs @ [(k, v)]"
  by (induction kvs) auto

lemma length_numbered [simp]: "length (numbered i xs) = length xs"
  by (induction i xs rule: numbered.induct) auto

lemma keys_numbered: "map fst (numbered i xs) = [i..i + int (length xs) - 1]"
proof (induction xs arbitrary: i)
  case Nil
  then show ?case by simp
next
  case (Cons x xs)
  obtain m k u where x: "x = (m, k, u)" by (cases x)
  have "[i..i + int (length (x # xs)) - 1] = i # [i + 1..i + 1 + int (length xs) - 1]"
    by (simp add: upto_rec1)
  with Cons x show ?case by simp
qed

lemma numbered_append:
  "numbered i (xs @ ys) = numbered i xs @ numbered (i + int (length xs)) ys"
  by (induction i xs rule: numbered.induct) (auto simp: algebra_simps)

lemma contiguous_empty: "contiguous []"
  by (simp add: contiguous_def)

lemma contiguous_fresh_key:
  assumes "contiguous cfg"
  shows "int (length cfg) + 1 \<notin> fst ` set cfg"
proof -
  have "fst ` set cfg = set (map fst cfg)" by simp
  also have "\<dots> = {1..int (length cfg)}" using assms by (simp add: contiguous_def)
  finally show ?thesis by simp
qed

lemma contiguous_distinct:
  assumes "contiguous cfg"
  shows "distinct (map fst cfg)"
  using assms by (simp add: contiguous_def)

lemma contiguous_snoc:
  assumes "contiguous cfg"
  shows "contiguous (cfg @ [(int (length cfg) + 1, v)])"
proof -
  have len: "int (length (cfg @ [(int (length cfg) + 1, v)])) = int (length cfg) + 1"
    by simp
  have "[1..int (length cfg) + 1] = [1..int (length cfg)] @ [int (length cfg) + 1]"
    by (simp add: upto_rec2)
  with assms show ?thesis unfolding contiguous_def len by simp
qed

lemma upto_from_one_append:
  "[1..int n + int k] = [1..int n] @ [int n + 1..int n + int k]"
proof (cases n)
  case 0
  then show ?thesis by simp
next
  case (Suc n')
  then show ?thesis
    using upto_split2 [of 1 "int n" "int n + int k"] by simp
qed

lemma contiguous_append_numbered:
  assumes "contiguous cfg"
  shows "contiguous (cfg @ numbered (int (length cfg) + 1) xs)"
proof -
  have len: "int (length (cfg @ numbered (int (length cfg) + 1) xs)) =
               int (length cfg) + int (length xs)"
    by simp
  show ?thesis
    using assms unfolding contiguous_def len
    by (simp add: keys_numbered upto_from_one_append)
qed

text \<open>
  On a table whose keys are \<open>1..N\<close> the identifier \<open>len(self.config) + 1\<close> is new at every
  turn of the loop, so the loop appends: it overwrites nothing.
\<close>

lemma load_models_loop_appends:
  assumes "contiguous cfg"
  shows "load_models_loop key base_url ms cfg =
           cfg @ numbered (int (length cfg) + 1) (map (\<lambda>m. (m, key, base_url)) ms)"
  using assms
proof (induction ms arbitrary: cfg)
  case Nil
  then show ?case by simp
next
  case (Cons m ms)
  let ?v = "\<lparr>name = model_id m, id' = int (length cfg) + 1, server = owned_by m,
             url = base_url, api_key = key\<rparr>"
  let ?cfg = "cfg @ [(int (length cfg) + 1, ?v)]"
  have step: "dict_set (int (length cfg) + 1) ?v cfg = ?cfg"
    using contiguous_fresh_key [OF Cons.prems] by (rule dict_set_new)
  have "contiguous ?cfg" using Cons.prems by (rule contiguous_snoc)
  then have "load_models_loop key base_url ms ?cfg =
      ?cfg @ numbered (int (length ?cfg) + 1) (map (\<lambda>m. (m, key, base_url)) ms)"
    by (rule Cons.IH)
  with step show ?case by (simp add: Let_def)
qed

lemma load_models_from_api_succeeds:
  assumes "succeeds w (key, base_url)" and "contiguous (config s)"
  shows "load_models_from_api w key base_url s =
           (Inr PyNone,
            s\<lparr>config := config s @ numbered (int (length (config s)) + 1) (listing w (key, base_url)),
              requests := requests s @ [ModelsList \<lparr>client_api_key = key, client_base_url = base_url\<rparr>]\<rparr>)"
proof (cases "models_list w \<lparr>client_api_key = key, client_base_url = base_url\<rparr>")
  case (Pair ms fin)
  with assms show ?thesis
    by (simp add: load_models_from_api_def OpenAI_new_def listing_def load_models_loop_appends)
qed

lemma discovery_calls_succeed:
  assumes "\<forall>q \<in> set calls. succeeds w q" and "contiguous (config s)"
  shows "fst (discovery_calls w calls s) = Inr PyNone \<and>
         config (snd (discovery_calls w calls s)) =
           config s @ numbered (int (length (config s)) + 1) (concat (map (listing w) calls))"
  using assms
proof (induction calls arbitrary: s)
  case Nil
  then show ?case by simp
next
  case (Cons q calls)
  obtain key base_url where q: "q = (key, base_url)" by (cases q)
  let ?s' = "s\<lparr>config := config s @ numbered (int (length (config s)) + 1) (listing w q),
              requests := requests s @ [ModelsList \<lparr>client_api_key = key, client_base_url = base_url\<rparr>]\<rparr>"
  have one: "load_models_from_api w key base_url s = (Inr PyNone, ?s')"
    using Cons.prems q by (simp add: load_models_from_api_succeeds)
  have "contiguous (config ?s')"
    using Cons.prems(2) by (simp add: contiguous_append_numbered)
  moreover have "\<forall>q \<in> set calls. succeeds w q" using Cons.prems(1) by simp
  ultimately have IH: "fst (discovery_calls w calls ?s') = Inr PyNone \<and>
         config (snd (discovery_calls w calls ?s')) =
           config ?s' @ numbered (int (length (config ?s')) + 1) (concat (map (listing w) calls))"
    by (rule Cons.IH [rotated])
  show ?case using one IH q
    by (simp add: numbered_append algebra_simps)
qed

text \<open>The two resolvers make their discovery calls as such a sequence.\<close>

lemma load_servers_discovery:
  "load_servers w (map (\<lambda>(server_name, kvs). (server_name, PyDict kvs)) entries) s =
   discovery_calls w (map (\<lambda>(server_name, kvs). server_query kvs) entries) s"
proof (induction entries arbitrary: s)
  case Nil
  then show ?case by simp
next
  case (Cons entry entries)
  obtain server_name kvs where entry: "entry = (server_name, kvs)" by (cases entry)
  show ?case
    by (simp add: entry dict_get_def server_query_def Cons.IH split: prod.splits sum.splits)
qed

lemma load_models_from_api_returns_None:
  "load_models_from_api w key base_url s = (Inr r, s') \<Longrightarrow> r = PyNone"
  by (auto simp: load_models_from_api_def split: sum.splits prod.splits option.splits)

lemma load_config_from_env_discovery:
  assumes "getenv w ''API_KEY'' = Some key" and "key \<noteq> []"
    and "getenv w ''BASE_URL'' = Some base_url" and "base_url \<noteq> []"
    and "client_init w (PyStr key) (PyStr base_url) = None"
  shows "load_config_from_env w s =
           discovery_calls w [(PyStr key, PyStr base_url)]
             (s\<lparr>client := Some \<lparr>client_api_key = PyStr key, client_base_url = PyStr base_url\<rparr>\<rparr>)"
  using assms
  by (auto simp: load_config_from_env_def os_getenv_def OpenAI_new_def
      split: prod.splits sum.splits dest: load_models_from_api_returns_None)

text \<open>
  C4. After any sequence of successful discovery calls that starts from an empty table,
  the table holds the models of all the queried servers, query after query and each
  listing in the backend's order, and its keys are exactly \<open>1..N\<close> in that order, where
  \<open>N\<close> is the total number of models returned; each descriptor carries its own key.
\<close>

theorem discovery_keys_contiguous:
  assumes "config s = []" and "\<forall>q \<in> set calls. succeeds w q"
  shows "fst (discovery_calls w calls s) = Inr PyNone \<and>
         config (snd (discovery_calls w calls s)) = numbered 1 (concat (map (listing w) calls)) \<and>
         map fst (config (snd (discovery_calls w calls s))) =
           [1..int (length (concat (map (listing w) calls)))]"
proof -
  have "contiguous (config s)" using assms(1) by (simp add: contiguous_empty)
  with assms(2) have
    "fst (discovery_calls w calls s) = Inr PyNone \<and>
     config (snd (discovery_calls w calls s)) =
       config s @ numbered (int (length (config s)) + 1) (concat (map (listing w) calls))"
    by (rule discovery_calls_succeed)
  with assms(1) show ?thesis by (simp add: keys_numbered)
qed

theorem discovery_keys_contiguous_witness:
  "config fresh = [] \<and>
   succeeds demo_world (PyStr ''k'', PyStr ''http://a'') \<and>
   succeeds demo_world (PyStr ''k2'', PyStr ''http://b'') \<and>
   config (snd (discovery_calls demo_world
       [(PyStr ''k'', PyStr ''http://a''), (PyStr ''k2'', PyStr ''http://b'')] fresh)) =
     [(1, \<lparr>name = ''gpt-a'', id' = 1, server = ''lab'', url = PyStr ''http://a'', api_key = PyStr ''k''\<rparr>),
      (2, \<lparr>name = ''gpt-b'', id' = 2, server = ''lab'', url = PyStr ''http://a'', api_key = PyStr ''k''\<rparr>),
      (3, \<lparr>name = ''m-c'', id' = 3, server = ''org'', url = PyStr ''http://b'', api_key = PyStr ''k2''\<rparr>)]"
proof -
  have ok: "\<forall>q \<in> set [(PyStr ''k'', PyStr ''http://a''), (PyStr ''k2'', PyStr ''http://b'')].
      succeeds demo_world q"
    by (simp add: demo_world_def)
  have empty: "config fresh = []" by (simp add: fresh_def)
  show ?thesis
    using discovery_keys_contiguous [OF empty ok] ok empty
    by (simp add: listing_def demo_world_def)
qed

section \<open>Resolving twice\<close>

lemma map_of_prefix:
  "map_of xs i = Some d \<Longrightarrow> map_of (xs @ ys) i = Some d"
  by (simp add: map_add_Some_iff)

text \<open>
  C5 (as amended). A resolution is a sequence of successful discovery calls. Running a
  second one on the table that the first one built from an empty table adds exactly
  the models that the second one discovers: the table has strictly more entries exactly
  when the second resolution returns at least one model, the entries of the first are
  the first entries of the new table, and every identifier assigned before still maps
  to the same descriptor.
\<close>

theorem second_resolution_additive:
  assumes "config s0 = []"
    and "\<forall>q \<in> set calls1. succeeds w1 q" and "\<forall>q \<in> set calls2. succeeds w2 q"
    and "s1 = snd (discovery_calls w1 calls1 s0)"
    and "s2 = snd (discovery_calls w2 calls2 s1)"
  shows "length (config s2) = length (config s1) + length (concat (map (listing w2) calls2)) \<and>
         (length (config s1) < length (config s2)) = (concat (map (listing w2) calls2) \<noteq> []) \<and>
         take (length (config s1)) (config s2) = config s1 \<and>
         (\<forall>(i, d) \<in> set (config s1). map_of (config s2) i = Some d)"
proof -
  let ?new = "numbered (int (length (config s1)) + 1) (concat (map (listing w2) calls2))"
  have c0: "contiguous (config s0)" using assms(1) by (simp add: contiguous_empty)
  have first: "config s1 = config s0 @ numbered (int (length (config s0)) + 1) (concat (map (listing w1) calls1))"
    using discovery_calls_succeed [OF assms(2) c0] assms(4) by simp
  have c1: "contiguous (config s1)"
    unfolding first using c0 by (rule contiguous_append_numbered)
  have second: "config s2 = config s1 @ ?new"
    using discovery_calls_succeed [OF assms(3) c1] assms(5) by simp
  have kept: "\<forall>(i, d) \<in> set (config s1). map_of (config s2) i = Some d"
  proof (clarify)
    fix i d assume "(i, d) \<in> set (config s1)"
    then have "map_of (config s1) i = Some d"
      using contiguous_distinct [OF c1] by simp
    then show "map_of (config s2) i = Some d"
      unfolding second by (rule map_of_prefix)
  qed
  show ?thesis using second kept by simp
qed

theorem second_resolution_additive_witness:
  "config fresh = [] \<and> succeeds demo_world (PyStr ''k'', PyStr ''http://a'') \<and>
   length (config (snd (discovery_calls demo_world [(PyStr ''k'', PyStr ''http://a'')] fresh))) = 2 \<and>
   length (config (snd (discovery_calls demo_world [(PyStr ''k'', PyStr ''http://a'')]
      (snd (discovery_calls demo_world [(PyStr ''k'', PyStr ''http://a'')] fresh))))) = 4 \<and>
   take 2 (config (snd (discovery_calls demo_world [(PyStr ''k'', PyStr ''http://a'')]
      (snd (discovery_calls demo_world [(PyStr ''k'', PyStr ''http://a'')] fresh))))) =
     config (snd (discovery_calls demo_world [(PyStr ''k'', PyStr ''http://a'')] fresh))"
proof -
  have ok: "\<forall>q \<in> set [(PyStr ''k'', PyStr ''http://a'')]. succeeds demo_world q"
    by (simp add: demo_world_def)
  have empty: "config fresh = []" by (simp add: fresh_def)
  have one: "length (config (snd (discovery_calls demo_world [(PyStr ''k'', PyStr ''http://a'')] fresh))) = 2"
    by (simp add: load_models_from_api_def OpenAI_new_def demo_world_def fresh_def)
  show ?thesis
    using second_resolution_additive [OF empty ok ok refl refl] ok empty one
    by (simp add: listing_def demo_world_def)
qed

text \<open>
  C5 as stated fails where the servers list no model: the second resolution adds
  nothing, and the table is no larger than after the first. This is so for a sequence
  of discovery calls and for \<open>_load_config_from_env\<close> run twice, both runs returning
  normally.
\<close>

theorem second_resolution_may_add_nothing:
  "\<not> length (config (snd (discovery_calls empty_world [(PyStr ''k'', PyStr ''http://a'')] fresh)))
     < length (config (snd (discovery_calls empty_world [(PyStr ''k'', PyStr ''http://a'')]
         (snd (discovery_calls empty_world [(PyStr ''k'', PyStr ''http://a'')] fresh))))) \<and>
   fst (load_config_from_env empty_world fresh) = Inr PyNone \<and>
   fst (load_config_from_env empty_world (snd (load_config_from_env empty_world fresh))) =
     Inr PyNone \<and>
   \<not> length (config (snd (load_config_from_env empty_world fresh)))
     < length (config (snd (load_config_from_env empty_world
         (snd (load_config_from_env empty_world fresh)))))"
  by (simp add: load_config_from_env_def os_getenv_def load_models_from_api_def OpenAI_new_def
      empty_world_def demo_world_def fresh_def Let_def)

section \<open>The configuration file\<close>

lemma requests_load_models_from_api:
  "requests (snd (load_models_from_api w key base_url s)) =
     requests s @
       (case client_init w key base_url of
          None \<Rightarrow> [ModelsList \<lparr>client_api_key = key, client_base_url = base_url\<rparr>]
        | Some e \<Rightarrow> [])"
  by (simp add: load_models_from_api_def OpenAI_new_def split: option.splits prod.splits)

lemma stdout_load_models_from_api:
  "stdout (snd (load_models_from_api w key base_url s)) = stdout s"
  by (simp add: load_models_from_api_def OpenAI_new_def split: option.splits prod.splits sum.splits)

lemma requests_load_servers:
  "\<exists>later. requests (snd (load_servers w servers s)) = requests s @ later"
proof (induction servers arbitrary: s)
  case Nil
  then show ?case by simp
next
  case (Cons entry servers)
  obtain server_name server_data where entry: "entry = (server_name, server_data)"
    by (cases entry)
  show ?case
  proof (cases "dict_get server_data ''api_key'' (PyStr [])")
    case (Inl e)
    then show ?thesis by (simp add: entry)
  next
    case key: (Inr key)
    show ?thesis
    proof (cases "dict_get server_data ''api_url'' (PyStr [])")
      case (Inl e)
      then show ?thesis by (simp add: entry key)
    next
      case base: (Inr base_url)
      obtain r s' where one: "load_models_from_api w key base_url s = (r, s')"
        by (cases "load_models_from_api w key base_url s")
      have req: "\<exists>added. requests s' = requests s @ added"
        using requests_load_models_from_api [of w key base_url s] one by simp
      show ?thesis
      proof (cases r)
        case (Inl e)
        then show ?thesis using req by (simp add: entry key base one)
      next
        case (Inr v)
        from Cons.IH [of s'] obtain later where
          "requests (snd (load_servers w servers s')) = requests s' @ later" by blast
        with req Inr show ?thesis by (auto simp: entry key base one)
      qed
    qed
  qed
qed

lemma stdout_load_servers: "stdout (snd (load_servers w servers s)) = stdout s"
proof (induction servers arbitrary: s)
  case Nil
  then show ?case by simp
next
  case (Cons entry servers)
  obtain server_name server_data where entry: "entry = (server_name, server_data)"
    by (cases entry)
  show ?case
    using Cons.IH stdout_load_models_from_api
    by (auto simp: entry split: sum.splits prod.splits) (metis snd_conv)+
qed

text \<open>
  C10. A server entry of the configuration file that lacks \<open>api_key\<close> or \<open>api_url\<close> is
  not rejected: for the first server of the document the loader goes on to the
  discovery call, with the empty string in the place of each missing field, and what
  it returns is what that call and the remaining servers return. Nothing is printed,
  and once the client is built the first request sent is the listing request with
  those values.
\<close>

theorem missing_server_fields_default_to_empty:
  assumes "read_text w config_path = Inr t" and "json_decode w t = Some (PyDict doc)"
    and "map_of doc ''servers'' = Some (PyDict ((server_name, PyDict kvs) # rest))"
  shows "load_config_from_file w config_path s =
           (case load_models_from_api w (fst (server_query kvs)) (snd (server_query kvs)) s of
              (Inl e, s') \<Rightarrow> (Inl e, s')
            | (Inr r, s') \<Rightarrow> load_servers w rest s') \<and>
         (map_of kvs ''api_key'' = None \<longrightarrow> fst (server_query kvs) = PyStr []) \<and>
         (map_of kvs ''api_url'' = None \<longrightarrow> snd (server_query kvs) = PyStr []) \<and>
         stdout (snd (load_config_from_file w config_path s)) = stdout s \<and>
         (client_init w (fst (server_query kvs)) (snd (server_query kvs)) = None \<longrightarrow>
            (\<exists>later. requests (snd (load_config_from_file w config_path s)) =
               requests s @
                 ModelsList \<lparr>client_api_key = fst (server_query kvs),
                             client_base_url = snd (server_query kvs)\<rparr> # later))"
proof -
  let ?k = "fst (server_query kvs)" and ?u = "snd (server_query kvs)"
  have unfold: "load_config_from_file w config_path s =
      load_servers w ((server_name, PyDict kvs) # rest) s"
    using assms(1-3) by (simp add: load_config_from_file_def read_config_def dict_get_def)
  have step: "load_servers w ((server_name, PyDict kvs) # rest) s =
      (case load_models_from_api w ?k ?u s of
         (Inl e, s') \<Rightarrow> (Inl e, s')
       | (Inr r, s') \<Rightarrow> load_servers w rest s')"
    by (simp add: dict_get_def server_query_def)
  have eq: "load_config_from_file w config_path s =
      (case load_models_from_api w ?k ?u s of
         (Inl e, s') \<Rightarrow> (Inl e, s')
       | (Inr r, s') \<Rightarrow> load_servers w rest s')"
    by (simp only: unfold step)
  have out: "stdout (snd (load_config_from_file w config_path s)) = stdout s"
    unfolding unfold by (rule stdout_load_servers)
  have sent: "\<exists>later. requests (snd (load_config_from_file w config_path s)) =
      requests s @ ModelsList \<lparr>client_api_key = ?k, client_base_url = ?u\<rparr> # later"
    if ok: "client_init w ?k ?u = None"
  proof -
    obtain r s' where one: "load_models_from_api w ?k ?u s = (r, s')"
      by (cases "load_models_from_api w ?k ?u s")
    have req: "requests s' = requests s @ [ModelsList \<lparr>client_api_key = ?k, client_base_url = ?u\<rparr>]"
      using requests_load_models_from_api [of w ?k ?u s] one ok by simp
    show ?thesis
    proof (cases r)
      case (Inl e)
      then show ?thesis using req by (simp add: eq one)
    next
      case (Inr v)
      from requests_load_servers [of w rest s'] obtain later where
        "requests (snd (load_servers w rest s')) = requests s' @ later" by blast
      with req Inr show ?thesis by (simp add: eq one)
    qed
  qed
  show ?thesis
    using eq out sent by (simp add: server_query_def)
qed

theorem missing_server_fields_default_to_empty_witness:
  "read_text demo_world ''config.json'' = Inr ''{\"servers\": {\"main\": {}}}'' \<and>
   map_of ([] :: (string \<times> pyval) list) ''api_key'' = None \<and>
   map_of ([] :: (string \<times> pyval) list) ''api_url'' = None \<and>
   load_config_from_file demo_world ''config.json'' fresh =
     (Inr PyNone,
      fresh\<lparr>requests := [ModelsList \<lparr>client_api_key = PyStr [], client_base_url = PyStr []\<rparr>]\<rparr>)"
proof -
  have a: "read_text demo_world ''config.json'' = Inr ''{\"servers\": {\"main\": {}}}''"
    by (simp add: demo_world_def)
  have b: "json_decode demo_world ''{\"servers\": {\"main\": {}}}'' =
             Some (PyDict [(''servers'', PyDict [(''main'', PyDict [])])])"
    by (simp add: demo_world_def)
  have c: "map_of [(''servers'', PyDict [(''main'', PyDict [])])] ''servers'' =
             Some (PyDict ((''main'', PyDict []) # []))"
    by simp
  show ?thesis
    using missing_server_fields_default_to_empty [OF a b c, of fresh] a
    by (simp add: server_query_def load_models_from_api_def OpenAI_new_def demo_world_def fresh_def)
qed

text \<open>
  C8. For a path that does not exist the claim asks for a report and an exit with a
  non-zero status. The code does neither: the handler of \<open>FileNotFoundError\<close> reads the
  attribute \<open>self.config_path\<close>, which no object of the class has, so an
  \<open>AttributeError\<close> reaches the caller, nothing has been printed and \<open>exit(1)\<close> is not
  run.
\<close>

theorem missing_config_file_raises_AttributeError:
  assumes "read_text w config_path = Inl FileNotFoundError"
  shows "load_config_from_file w config_path s = (Inl (AttributeError ''config_path''), s)"
  using assms by (simp add: load_config_from_file_def read_config_def)

theorem missing_config_file_raises_AttributeError_witness:
  "read_text demo_world ''missing.json'' = Inl FileNotFoundError \<and>
   load_config_from_file demo_world ''missing.json'' fresh = (Inl (AttributeError ''config_path''), fresh) \<and>
   fst (load_config_from_file demo_world ''missing.json'' fresh) \<noteq> Inl (SystemExit 1) \<and>
   stdout (snd (load_config_from_file demo_world ''missing.json'' fresh)) = []"
proof -
  have a: "read_text demo_world ''missing.json'' = Inl FileNotFoundError"
    by (simp add: demo_world_def)
  show ?thesis
    using missing_config_file_raises_AttributeError [OF a, of fresh] a
    by (simp add: fresh_def)
qed

text \<open>The other two failures are reported and end in \<open>exit(1)\<close>.\<close>

lemma malformed_config_file_exits:
  assumes "read_text w config_path = Inr t" and "json_decode w t = None"
  shows "load_config_from_file w config_path s =
           (Inl (SystemExit 1), s\<lparr>stdout := stdout s @ [ConfigFormatError]\<rparr>)"
  using assms by (simp add: load_config_from_file_def read_config_def)

lemma no_servers_exits:
  assumes "read_text w config_path = Inr t" and "json_decode w t = Some (PyDict doc)"
    and "map_of doc ''servers'' = None \<or> map_of doc ''servers'' = Some (PyDict [])"
  shows "load_config_from_file w config_path s =
           (Inl (SystemExit 1), s\<lparr>stdout := stdout s @ [NoServersDefined]\<rparr>)"
  using assms by (auto simp: load_config_from_file_def read_config_def dict_get_def)

section \<open>Model selection\<close>

lemma select_loop_no_match:
  "\<forall>m \<in> set ms. \<not> identifies model_identifier m \<Longrightarrow>
   select_loop w model_identifier ms s = (Inl (ValueError (Model_not_found model_identifier)), s)"
  by (induction ms) auto

text \<open>
  C7. When the argument equals neither the \<open>id\<close> nor the \<open>name\<close> of any descriptor of
  the table, \<open>set_model_by_id\<close> raises the \<open>ValueError\<close> "Model ... not found in config"
  and leaves the whole state as it was: the selected model and the client too.
\<close>

theorem set_model_by_id_not_found:
  assumes "\<forall>(i, m) \<in> set (config s).
             \<not> py_eq_int model_identifier (id' m) \<and> \<not> py_eq_str model_identifier (name m)"
  shows "set_model_by_id w model_identifier s =
           (Inl (ValueError (Model_not_found model_identifier)), s)"
proof -
  have "\<forall>m \<in> set (map snd (config s)). \<not> identifies model_identifier m"
    using assms by (auto simp: identifies_def)
  then show ?thesis
    unfolding set_model_by_id_def by (rule select_loop_no_match)
qed

theorem set_model_by_id_not_found_witness:
  "set_model_by_id demo_world (PyStr ''gpt-z'') demo_state =
     (Inl (ValueError (Model_not_found (PyStr ''gpt-z''))), demo_state) \<and>
   selected_model demo_state = Some demo_model \<and>
   set_model_by_id demo_world (PyInt 7) demo_state =
     (Inl (ValueError (Model_not_found (PyInt 7))), demo_state)"
proof -
  have a: "\<forall>(i, m) \<in> set (config demo_state).
             \<not> py_eq_int (PyStr ''gpt-z'') (id' m) \<and> \<not> py_eq_str (PyStr ''gpt-z'') (name m)"
    by (simp add: demo_state_def demo_model_def)
  have b: "\<forall>(i, m) \<in> set (config demo_state).
             \<not> py_eq_int (PyInt 7) (id' m) \<and> \<not> py_eq_str (PyInt 7) (name m)"
    by (simp add: demo_state_def demo_model_def)
  show ?thesis
    using set_model_by_id_not_found [OF a, of demo_world]
      set_model_by_id_not_found [OF b, of demo_world]
    by (simp add: demo_state_def)
qed

section \<open>Blocking and structured exchanges\<close>

text \<open>
  C2. With a model selected, when the backend answers the request (a completion with at
  least one choice), \<open>chat\<close> returns the content of the first choice, and the history
  has grown by exactly two entries: the user message, then the assistant's reply with
  that same content.
\<close>

theorem chat_success:
  assumes "selected_model s = Some m" and "client s = Some c"
    and "chat_create w c \<lparr>model = name m,
           messages = conversation_history s @ [\<lparr>role = ''user'', content = PyStr message\<rparr>],
           stream = False, response_format = None\<rparr> = Inr (reply # others)"
  shows "fst (chat w message s) = Inr reply \<and>
         conversation_history (snd (chat w message s)) =
           conversation_history s @
             [\<lparr>role = ''user'', content = PyStr message\<rparr>,
              \<lparr>role = ''assistant'', content = reply\<rparr>] \<and>
         length (conversation_history (snd (chat w message s))) =
           length (conversation_history s) + 2"
  using assms by (simp add: chat_def create_def first_choice_def)

theorem chat_success_witness:
  "selected_model demo_state = Some demo_model \<and> client demo_state = Some demo_client \<and>
   fst (chat demo_world ''hi'' demo_state) = Inr (PyStr ''hello'') \<and>
   conversation_history (snd (chat demo_world ''hi'' demo_state)) =
     [\<lparr>role = ''user'', content = PyStr ''hi''\<rparr>,
      \<lparr>role = ''assistant'', content = PyStr ''hello''\<rparr>]"
  using chat_success [of demo_state demo_model demo_client demo_world "''hi''" "PyStr ''hello''" "[]"]
  by (simp add: demo_state_def demo_world_def)

text \<open>
  C3. With a model selected, when the backend call raises an exception (a subclass of
  \<open>Exception\<close>), \<open>chat\<close> does not raise: it prints the failure and returns \<open>None\<close>, and
  the history has grown by exactly one entry, the user message, which stays.
\<close>

theorem chat_backend_failure:
  assumes "selected_model s = Some m" and "client s = Some c"
    and "chat_create w c \<lparr>model = name m,
           messages = conversation_history s @ [\<lparr>role = ''user'', content = PyStr message\<rparr>],
           stream = False, response_format = None\<rparr> = Inl e"
    and "is_Exception e"
  shows "fst (chat w message s) = Inr PyNone \<and>
         conversation_history (snd (chat w message s)) =
           conversation_history s @ [\<lparr>role = ''user'', content = PyStr message\<rparr>] \<and>
         length (conversation_history (snd (chat w message s))) =
           length (conversation_history s) + 1 \<and>
         stdout (snd (chat w message s)) = stdout s @ [ApiRequestFailed e]"
  using assms by (simp add: chat_def create_def api_failed_def)

theorem chat_backend_failure_witness:
  "selected_model demo_state = Some demo_model \<and> client demo_state = Some demo_client \<and>
   is_Exception (OtherError ''connection refused'') \<and>
   fst (chat failing_world ''hi'' demo_state) = Inr PyNone \<and>
   conversation_history (snd (chat failing_world ''hi'' demo_state)) =
     [\<lparr>role = ''user'', content = PyStr ''hi''\<rparr>] \<and>
   stdout (snd (chat failing_world ''hi'' demo_state)) =
     [ApiRequestFailed (OtherError ''connection refused'')]"
  using chat_backend_failure [of demo_state demo_model demo_client failing_world "''hi''"
      "OtherError ''connection refused''"]
  by (simp add: demo_state_def failing_world_def demo_world_def)

text \<open>
  C6. With a model selected, when the backend answers the request of \<open>json_chat\<close> with a
  text that the JSON decoder rejects, \<open>json_chat\<close> returns the empty dict, and the
  history has grown by exactly two entries: the user message, then one assistant entry
  that holds the reply text as it came.
\<close>

theorem json_chat_malformed_reply:
  assumes "selected_model s = Some m" and "client s = Some c"
    and "chat_create w c \<lparr>model = name m,
           messages = conversation_history s @ [\<lparr>role = ''user'', content = PyStr message\<rparr>],
           stream = False,
           response_format = Some (PyDict [(''type'', PyStr ''json_object'')])\<rparr>
         = Inr (PyStr reply # others)"
    and "json_decode w reply = None"
  shows "fst (json_chat w message s) = Inr (PyDict []) \<and>
         conversation_history (snd (json_chat w message s)) =
           conversation_history s @
             [\<lparr>role = ''user'', content = PyStr message\<rparr>,
              \<lparr>role = ''assistant'', content = PyStr reply\<rparr>] \<and>
         length (conversation_history (snd (json_chat w message s))) =
           length (conversation_history s) + 2 \<and>
         stdout (snd (json_chat w message s)) = stdout s @ [ReplyNotJson]"
  using assms
  by (simp add: json_chat_def create_def first_choice_def json_loads_def json_failed_def)

theorem json_chat_malformed_reply_witness:
  "selected_model demo_state = Some demo_model \<and> client demo_state = Some demo_client \<and>
   json_decode prose_world ''Sure, here it is'' = None \<and>
   fst (json_chat prose_world ''hi'' demo_state) = Inr (PyDict []) \<and>
   conversation_history (snd (json_chat prose_world ''hi'' demo_state)) =
     [\<lparr>role = ''user'', content = PyStr ''hi''\<rparr>,
      \<lparr>role = ''assistant'', content = PyStr ''Sure, here it is''\<rparr>]"
  using json_chat_malformed_reply [of demo_state demo_model demo_client prose_world "''hi''"
      "''Sure, here it is''" "[]"]
  by (simp add: demo_state_def prose_world_def demo_world_def)

section \<open>The streaming exchange\<close>

text \<open>
  C9. With no model selected, the call of \<open>stream_chat\<close> raises nothing: it returns a
  generator and leaves the state as it was. The \<open>ValueError\<close> "No model selected" is
  raised by the first request for an element, which changes nothing either.
\<close>

theorem stream_chat_no_model_deferred:
  assumes "selected_model s = None"
  shows "stream_chat message s = (Created message, s) \<and>
         generator_next w (fst (stream_chat message s)) (snd (stream_chat message s)) =
           (Inl (ValueError No_model_selected), Finished, s)"
  using assms by (simp add: stream_chat_def generator_next_def)

theorem stream_chat_no_model_deferred_witness:
  "selected_model fresh = None \<and>
   stream_chat ''hi'' fresh = (Created ''hi'', fresh) \<and>
   generator_next demo_world (fst (stream_chat ''hi'' fresh)) (snd (stream_chat ''hi'' fresh)) =
     (Inl (ValueError No_model_selected), Finished, fresh)"
proof -
  have a: "selected_model fresh = None" by (simp add: fresh_def)
  show ?thesis
    using stream_chat_no_model_deferred [OF a, of "''hi''" demo_world] a by auto
qed

lemma fragments_all: "\<forall>ch \<in> set chunks. ch \<noteq> [] \<Longrightarrow> fragments chunks = map hd chunks"
  by (induction chunks rule: fragments.induct) auto

lemma history_stream_loop:
  "conversation_history (snd (snd (stream_loop chunks fin s))) = conversation_history s"
  by (cases "(chunks, fin, s)" rule: stream_loop.cases)
     (auto simp: stream_failed_def first_choice_def split: list.splits)

lemma requests_stream_loop:
  "requests (snd (snd (stream_loop chunks fin s))) = requests s"
  by (cases "(chunks, fin, s)" rule: stream_loop.cases)
     (auto simp: stream_failed_def first_choice_def split: list.splits)

text \<open>
  A suspended generator is drained within one request more than the chunks that remain,
  and yields their fragments in order.
\<close>

lemma consume_suspended:
  "length chunks < n \<Longrightarrow>
   \<exists>e s'. consume n w (Suspended chunks fin) s = Some (fragments chunks, e, Finished, s') \<and>
          conversation_history s' = conversation_history s \<and> requests s' = requests s"
proof (induction chunks arbitrary: n)
  case Nil
  then obtain k where n: "n = Suc k" by (cases n) auto
  show ?case
    by (cases fin) (auto simp: n generator_next_def stream_failed_def)
next
  case (Cons ch chunks)
  then obtain k where n: "n = Suc k" and k: "length chunks < k" by (cases n) auto
  show ?case
  proof (cases ch)
    case Nil
    then show ?thesis
      by (simp add: n generator_next_def stream_failed_def first_choice_def)
  next
    case (Cons delta others)
    from Cons.IH [OF k] obtain e s' where
      "consume k w (Suspended chunks fin) s = Some (fragments chunks, e, Finished, s')"
      "conversation_history s' = conversation_history s" "requests s' = requests s"
      by blast
    with Cons show ?thesis
      by (simp add: n generator_next_def first_choice_def)
  qed
qed

text \<open>
  C1 (as amended). With a model selected and a client bound, the call of \<open>stream_chat\<close>
  appends nothing and sends nothing: it returns the sequence and leaves the state as it
  was. The user message is appended when the first element is requested, before the
  request is sent: the request carries the history with that message as its last entry.
  When the backend accepts the request, consuming the sequence yields the fragments of
  the response in arrival order and ends within one request more than there are
  chunks; the history then holds the user message and no assistant entry.
\<close>

theorem stream_chat_lazy:
  assumes "selected_model s = Some m" and "client s = Some c"
    and "chat_stream w c \<lparr>model = name m,
           messages = conversation_history s @ [\<lparr>role = ''user'', content = PyStr message\<rparr>],
           stream = True, response_format = None\<rparr> = Inr (chunks, fin)"
    and "length chunks < n"
  shows "snd (stream_chat message s) = s \<and>
         conversation_history (snd (snd (generator_next w (fst (stream_chat message s)) s))) =
           conversation_history s @ [\<lparr>role = ''user'', content = PyStr message\<rparr>] \<and>
         requests (snd (snd (generator_next w (fst (stream_chat message s)) s))) =
           requests s @ [ChatCompletionsCreate c \<lparr>model = name m,
             messages = conversation_history s @ [\<lparr>role = ''user'', content = PyStr message\<rparr>],
             stream = True, response_format = None\<rparr>] \<and>
         (\<exists>e s'. consume n w (fst (stream_chat message s)) s =
                    Some (fragments chunks, e, Finished, s') \<and>
            conversation_history s' =
              conversation_history s @ [\<lparr>role = ''user'', content = PyStr message\<rparr>])"
proof -
  let ?u = "\<lparr>role = ''user'', content = PyStr message\<rparr>"
  let ?req = "\<lparr>model = name m, messages = conversation_history s @ [?u],
               stream = True, response_format = None\<rparr>"
  let ?s2 = "s\<lparr>conversation_history := conversation_history s @ [?u],
              requests := requests s @ [ChatCompletionsCreate c ?req]\<rparr>"
  have first: "generator_next w (Created message) s = stream_loop chunks fin ?s2"
    using assms(1-3) by (simp add: generator_next_def create_stream_def)
  have resume: "generator_next w (Suspended chunks fin) ?s2 = stream_loop chunks fin ?s2"
    by (simp add: generator_next_def)
  obtain k where n: "n = Suc k" using assms(4) by (cases n) auto
  have same: "consume n w (Created message) s = consume n w (Suspended chunks fin) ?s2"
    by (simp add: n first resume)
  from consume_suspended [OF assms(4), of w fin ?s2] obtain e s' where
    "consume n w (Suspended chunks fin) ?s2 = Some (fragments chunks, e, Finished, s')"
    "conversation_history s' = conversation_history ?s2"
    by blast
  then have drained:
    "\<exists>e s'. consume n w (Created message) s = Some (fragments chunks, e, Finished, s') \<and>
       conversation_history s' = conversation_history s @ [?u]"
    using same by simp
  show ?thesis
    using first drained requests_stream_loop [of chunks fin ?s2]
      history_stream_loop [of chunks fin ?s2]
    by (simp add: stream_chat_def)
qed

theorem stream_chat_lazy_witness:
  "selected_model demo_state = Some demo_model \<and> client demo_state = Some demo_client \<and>
   snd (stream_chat ''hi'' demo_state) = demo_state \<and>
   consume (Suc (Suc (Suc 0))) demo_world (fst (stream_chat ''hi'' demo_state)) demo_state =
     Some ([PyStr ''he'', PyStr ''llo''], StopIteration, Finished,
           demo_state\<lparr>conversation_history := [\<lparr>role = ''user'', content = PyStr ''hi''\<rparr>],
             requests := [ChatCompletionsCreate demo_client
               \<lparr>model = ''gpt-a'', messages = [\<lparr>role = ''user'', content = PyStr ''hi''\<rparr>],
                stream = True, response_format = None\<rparr>]\<rparr>)"
  using stream_chat_lazy [of demo_state demo_model demo_client demo_world "''hi''"
      "[[PyStr ''he''], [PyStr ''llo'']]" None "Suc (Suc (Suc 0))"]
  by (simp add: demo_state_def demo_world_def demo_model_def stream_chat_def generator_next_def
      create_stream_def first_choice_def)

text \<open>
  C1 as stated fails: in a session with a model selected, the history after the call
  of \<open>stream_chat\<close>, before any element is requested, does not end with the user message.
\<close>

theorem stream_chat_call_appends_nothing:
  "selected_model demo_state = Some demo_model \<and>
   conversation_history (snd (stream_chat ''hi'' demo_state)) \<noteq>
     conversation_history demo_state @ [\<lparr>role = ''user'', content = PyStr ''hi''\<rparr>]"
  by (simp add: stream_chat_def demo_state_def)

end
